theory Spec2Isabelle
  imports Main
begin

section \<open>Data model of \<open>exif_detect_wrong_createdate.py\<close>\<close>

text \<open>
  The script reads media files through two libraries (Pillow for EXIF data, ffmpeg-python
  for container tags), parses a timestamp string with \<open>datetime.strptime\<close>, sorts
  the files of a year directory into three lists and writes two report files.

  The libraries and the file system are not part of the script, so they enter the model as
  an explicit environment. Everything the script itself does (the extension tests, the
  priority loop over the EXIF tags, the ordered loop over the formats, the \<open>try\<close> block
  and what it catches, the bucketing and the report writing) is a definition below.
  Diagnostic printing (\<open>verbose\<close>) writes to standard output only and is not modelled.
\<close>

datatype ProcessingResult =
    VALID_CREATION_TIMESTAMP
  | FAILED_TO_READ
  | NO_METADATA
  | INVALID_TIMESTAMP_FORMAT

text \<open>\<open>processing_result.name\<close> of the Python \<open>Enum\<close>.\<close>

fun result_name :: "ProcessingResult \<Rightarrow> string" where
  "result_name VALID_CREATION_TIMESTAMP = ''VALID_CREATION_TIMESTAMP''"
| "result_name FAILED_TO_READ = ''FAILED_TO_READ''"
| "result_name NO_METADATA = ''NO_METADATA''"
| "result_name INVALID_TIMESTAMP_FORMAT = ''INVALID_TIMESTAMP_FORMAT''"

text \<open>A \<open>datetime.datetime\<close> value; the script reads only \<open>.year\<close>.\<close>

record datetime =
  year :: int
  month :: int
  day :: int
  hour :: int
  minute :: int
  second :: int
  microsecond :: int

text \<open>
  Python is dynamically typed: the value Pillow stores under an EXIF tag is a \<open>str\<close> for
  a tag written with the ASCII type, \<open>bytes\<close> for one written with the BYTE or
  UNDEFINED type, and an \<open>int\<close> for one written with a numeric type. The script assigns
  that value to \<open>date_str\<close> unchecked, so the model keeps the three shapes apart.
\<close>

datatype pyval = PyStr string | PyBytes "nat list" | PyInt int

text \<open>
  The exceptions that occur in the model. All of them are subclasses of Python's
  \<open>Exception\<close>, so \<open>except Exception\<close> catches each of them.
\<close>

datatype py_exception =
    ValueError
  | TypeError
  | AttributeError
  | OSError
  | UnicodeEncodeError
  | FfmpegError

text \<open>
  What \<open>ffmpeg.probe\<close> returns, as far as the script looks at it: the outer option is
  the key \<open>"format"\<close> of the result, the inner option the key \<open>"tags"\<close> under it, and
  the association list the tag block itself.
\<close>

type_synonym probe_result = "(string \<times> string) list option option"

text \<open>
  Strings are sequences of bytes: a text is the sequence of its UTF-8 bytes, and a file
  name is the sequence of bytes the file system holds (Python decodes it with
  \<open>surrogateescape\<close>, which keeps every byte apart). The end of a string is one of the
  ASCII suffixes of the script exactly when the end of its bytes is.

  The working directory, where the reports go, is a map from file name to text.
\<close>

type_synonym file_system = "string \<rightharpoonup> string"

text \<open>
  The environment: the answers of the libraries and of the file system.
  \<^item> \<open>Image_open_getexif p\<close>: \<open>Image.open(p)\<close> followed by \<open>img._getexif()\<close>;
    \<open>Inl\<close> is an exception raised by either, \<open>Inr None\<close> is the result \<open>None\<close>,
    \<open>Inr (Some d)\<close> the dictionary from tag number to value.
  \<^item> \<open>ffmpeg_probe p\<close>: \<open>ffmpeg.probe(p)\<close>, \<open>Inl\<close> when it raises.
  \<^item> \<open>strptime s f\<close>: \<open>datetime.strptime(s, f)\<close> for a \<open>str\<close> argument \<open>s\<close>;
    \<open>None\<close> stands for the \<open>ValueError\<close> of a string that does not match.
  \<^item> \<open>os_walk fs p\<close>: the triples \<open>(root, dirs, files)\<close> that \<open>os.walk(p)\<close> yields
    while the working directory holds the files \<open>fs\<close>. The working directory may lie
    under \<open>p\<close>; then the walk lists the report files that exist.
  \<^item> \<open>open_fails n\<close>, \<open>remove_fails n\<close>: whether \<open>open(n, "w")\<close> and
    \<open>os.remove(n)\<close> raise.
  \<^item> \<open>write_fails t\<close>: whether \<open>f.write(t)\<close> raises because the text \<open>t\<close> cannot be
    encoded; the text layer encodes inside the call of \<open>write\<close>.
  \<^item> \<open>disk_stores n t\<close>: what the operating system does with the buffered bytes \<open>t\<close>
    of the file \<open>n\<close>. Text files are buffered, so a failure of the operating system
    (a full disk, a size limit) shows at some later \<open>write\<close> or when the file is closed.
    \<open>None\<close>: every byte reaches the file. \<open>Some k\<close>: no more than the first \<open>k\<close>
    bytes reach the file and \<open>OSError\<close> is raised.
\<close>

record environment =
  Image_open_getexif :: "string \<Rightarrow> py_exception + (nat \<times> pyval) list option"
  ffmpeg_probe :: "string \<Rightarrow> py_exception + probe_result"
  strptime :: "string \<Rightarrow> string \<Rightarrow> datetime option"
  os_walk :: "file_system \<Rightarrow> string \<Rightarrow> (string \<times> string list \<times> string list) list"
  open_fails :: "string \<Rightarrow> py_exception option"
  write_fails :: "string \<Rightarrow> py_exception option"
  disk_stores :: "string \<Rightarrow> string \<Rightarrow> nat option"
  remove_fails :: "string \<Rightarrow> py_exception option"

text \<open>
  The object state set up by \<open>MetadataProcessor.__init__\<close>: the three tag numbers looked
  up in \<open>ExifTags.TAGS\<close> (the second attribute is spelled \<open>exit_\<close> in the source) and
  the verbosity.
\<close>

record MetadataProcessor =
  exif_DateTimeOriginal_tag :: nat
  exit_DateTimeDigitized_tag :: nat
  exif_DateTime_tag :: nat
  verbose :: int

section \<open>Strings: \<open>lower\<close>, \<open>endswith\<close>, \<open>os.path.join\<close>\<close>

text \<open>
  \<open>str.lower\<close>. The script uses the lowered path only to compare its end with ASCII
  suffixes; the path itself is reported as it is. Three kinds of characters lower to
  ASCII letters: the letters \<open>A\<close> to \<open>Z\<close>; the Kelvin sign U+212A (bytes
  \<open>E2 84 AA\<close>), which lowers to \<open>k\<close>; and the dotted capital I U+0130 (bytes
  \<open>C4 B0\<close>), which lowers to \<open>i\<close> followed by the combining dot U+0307 (bytes
  \<open>CC 87\<close>). Every other character lowers to characters outside ASCII, whose bytes no
  suffix of the script can meet; their bytes are left as they are.
\<close>

definition lower_char :: "char \<Rightarrow> char" where
  "lower_char c =
     (case map_of (zip ''ABCDEFGHIJKLMNOPQRSTUVWXYZ'' ''abcdefghijklmnopqrstuvwxyz'') c of
        Some l \<Rightarrow> l
      | None \<Rightarrow> c)"

function lower :: "string \<Rightarrow> string" where
  "lower [] = []"
| "lower (c # s) =
     (if c = CHR 0xE2 \<and> take 2 s = [CHR 0x84, CHR 0xAA] then CHR ''k'' # lower (drop 2 s)
      else if c = CHR 0xC4 \<and> take 1 s = [CHR 0xB0]
        then CHR ''i'' # CHR 0xCC # CHR 0x87 # lower (drop 1 s)
      else lower_char c # lower s)"
  by pat_completeness auto
termination
  by (relation "measure length") auto

definition endswith :: "string \<Rightarrow> string \<Rightarrow> bool" where
  "endswith s suf =
     (length suf \<le> length s \<and> drop (length s - length suf) s = suf)"

text \<open>\<open>s.endswith(t)\<close> for a tuple \<open>t\<close> of suffixes: some suffix of the tuple fits.\<close>

definition endswith_any :: "string \<Rightarrow> string list \<Rightarrow> bool" where
  "endswith_any s sufs = list_ex (endswith s) sufs"

definition image_files_with_EXIF_metadata :: "string list" where
  "image_files_with_EXIF_metadata =
     [''.jpg'', ''.jpeg'', ''.png'', ''.tiff'', ''.heic'', ''.gif'']"

definition video_files_for_ffmpeg :: "string list" where
  "video_files_for_ffmpeg = [''.mp4'', ''.mov'', ''.avi'', ''.mkv'', ''.wmv'', ''.flv'']"

text \<open>\<open>ignore_files = (".cr2")\<close> is a plain string in Python, not a tuple.\<close>

definition ignore_files :: string where
  "ignore_files = ''.cr2''"

section \<open>The timestamp parser\<close>

text \<open>
  \<open>datetime.strptime(date_str, date_format)\<close>: it raises \<open>TypeError\<close> when its first
  argument is not a \<open>str\<close>, and \<open>ValueError\<close> when the string does not match.
\<close>

definition datetime_strptime ::
  "environment \<Rightarrow> pyval \<Rightarrow> string \<Rightarrow> py_exception + datetime" where
  "datetime_strptime env date_str date_format =
     (case date_str of
        PyStr s \<Rightarrow>
          (case strptime env s date_format of
             Some t \<Rightarrow> Inr t
           | None \<Rightarrow> Inl ValueError)
      | PyBytes b \<Rightarrow> Inl TypeError
      | PyInt i \<Rightarrow> Inl TypeError)"

text \<open>
  \<open>try_parse_date\<close>: only \<open>ValueError\<close> is caught and turned into \<open>None\<close>; any other
  exception leaves the function.
\<close>

definition try_parse_date ::
  "environment \<Rightarrow> pyval \<Rightarrow> string \<Rightarrow> py_exception + datetime option" where
  "try_parse_date env date_str date_format =
     (case datetime_strptime env date_str date_format of
        Inr date_parsed \<Rightarrow> Inr (Some date_parsed)
      | Inl e \<Rightarrow> if e = ValueError then Inr None else Inl e)"

text \<open>
  The loop \<open>for date_format in date_formats\<close> at the end of \<open>get_creation_date\<close>,
  with the \<open>return\<close> after it. It stands outside the \<open>try\<close> block.
\<close>

fun parse_date_formats ::
  "environment \<Rightarrow> pyval \<Rightarrow> string list
     \<Rightarrow> py_exception + (ProcessingResult \<times> datetime option)" where
  "parse_date_formats env date_str [] = Inr (INVALID_TIMESTAMP_FORMAT, None)"
| "parse_date_formats env date_str (date_format # date_formats) =
     (case try_parse_date env date_str date_format of
        Inl e \<Rightarrow> Inl e
      | Inr (Some date_parsed) \<Rightarrow> Inr (VALID_CREATION_TIMESTAMP, Some date_parsed)
      | Inr None \<Rightarrow> parse_date_formats env date_str date_formats)"

section \<open>The metadata extractor\<close>

text \<open>
  The loop over the three tag numbers with its \<open>break\<close>: the state after it is the pair
  \<open>(date_str, date_formats)\<close>, which starts as \<open>("", [])\<close>.
\<close>

fun scan_exif_keys :: "nat list \<Rightarrow> (nat \<times> pyval) list \<Rightarrow> pyval \<times> string list" where
  "scan_exif_keys [] exif_data = (PyStr '''', [])"
| "scan_exif_keys (key # keys) exif_data =
     (case map_of exif_data key of
        Some v \<Rightarrow> (v, [''%Y:%m:%d %H:%M:%S''])
      | None \<Rightarrow> scan_exif_keys keys exif_data)"

text \<open>
  The \<open>try\<close> block of \<open>get_creation_date\<close> either returns an outcome at once or falls
  through to the format loop with \<open>date_str\<close> and \<open>date_formats\<close> set.
\<close>

datatype try_block =
    Return "ProcessingResult \<times> datetime option"
  | Fall_through pyval "string list"

definition try_block_of ::
  "environment \<Rightarrow> MetadataProcessor \<Rightarrow> string \<Rightarrow> try_block" where
  "try_block_of env self file_path =
     (if endswith_any (lower file_path) image_files_with_EXIF_metadata then
        (case Image_open_getexif env file_path of
           Inl e \<Rightarrow> Return (FAILED_TO_READ, None)
         | Inr None \<Rightarrow> Return (NO_METADATA, None)
         | Inr (Some exif_data) \<Rightarrow>
             if exif_data = [] then Return (NO_METADATA, None)
             else
               (case scan_exif_keys
                      [exif_DateTimeOriginal_tag self, exit_DateTimeDigitized_tag self,
                       exif_DateTime_tag self] exif_data of
                  (date_str, date_formats) \<Rightarrow>
                    if date_str = PyStr '''' then Return (NO_METADATA, None)
                    else Fall_through date_str date_formats))
      else if endswith_any (lower file_path) video_files_for_ffmpeg then
        (case ffmpeg_probe env file_path of
           Inl e \<Rightarrow> Return (FAILED_TO_READ, None)
         | Inr None \<Rightarrow> Return (NO_METADATA, None)
         | Inr (Some None) \<Rightarrow> Return (NO_METADATA, None)
         | Inr (Some (Some tags)) \<Rightarrow>
             (case map_of tags ''creation_time'' of
                Some s \<Rightarrow>
                  Fall_through (PyStr s)
                    [''%Y-%m-%dT%H:%M:%S.%fZ'', ''%Y-%m-%d %H:%M:%S.%fZ'',
                     ''%Y-%m-%d %H:%M:%S'', ''%Y:%m:%d %H:%M:%S'']
              | None \<Rightarrow> Return (NO_METADATA, None)))
      else Return (FAILED_TO_READ, None))"

definition get_creation_date ::
  "environment \<Rightarrow> MetadataProcessor \<Rightarrow> string
     \<Rightarrow> py_exception + (ProcessingResult \<times> datetime option)" where
  "get_creation_date env self file_path =
     (case try_block_of env self file_path of
        Return outcome \<Rightarrow> Inr outcome
      | Fall_through date_str date_formats \<Rightarrow>
          parse_date_formats env date_str date_formats)"

section \<open>The directory classifier\<close>

text \<open>
  \<open>os.path.join(root, name)\<close> of \<open>posixpath\<close>, for two components: an absolute
  \<open>name\<close> replaces \<open>root\<close>, and no second separator is added after an empty \<open>root\<close>
  or one that ends with a separator.
\<close>

definition os_path_join :: "string \<Rightarrow> string \<Rightarrow> string" where
  "os_path_join a b =
     (if take 1 b = ''/'' then b
      else if a = [] \<or> endswith a ''/'' then a @ b
      else a @ ''/'' @ b)"

text \<open>The three lists that \<open>process_directory\<close> fills.\<close>

record buckets =
  matching_files :: "string list"
  non_matching_files :: "string list"
  failed_to_read_files :: "string list"

definition no_files :: buckets where
  "no_files = \<lparr>matching_files = [], non_matching_files = [], failed_to_read_files = []\<rparr>"

text \<open>
  The body of the inner loop, for one \<open>file_path\<close>. An exception that leaves
  \<open>get_creation_date\<close> leaves the loop as well, and \<open>creation_date.year\<close> on \<open>None\<close>
  would raise \<open>AttributeError\<close>.
\<close>

definition classify_file ::
  "environment \<Rightarrow> MetadataProcessor \<Rightarrow> int \<Rightarrow> buckets \<Rightarrow> string
     \<Rightarrow> py_exception + buckets" where
  "classify_file env self y b file_path =
     (if endswith (lower file_path) ignore_files then Inr b
      else
        (case get_creation_date env self file_path of
           Inl e \<Rightarrow> Inl e
         | Inr (processing_result, creation_date) \<Rightarrow>
             if processing_result = VALID_CREATION_TIMESTAMP then
               (case creation_date of
                  None \<Rightarrow> Inl AttributeError
                | Some d \<Rightarrow>
                    if year d = y
                    then Inr (b\<lparr>matching_files := matching_files b @ [file_path]\<rparr>)
                    else Inr (b\<lparr>non_matching_files := non_matching_files b @ [file_path]\<rparr>))
             else if processing_result = NO_METADATA then
               Inr (b\<lparr>non_matching_files := non_matching_files b @ [file_path]\<rparr>)
             else
               Inr (b\<lparr>failed_to_read_files := failed_to_read_files b @
                      [file_path @ '' (error code: '' @ result_name processing_result @ '')'']\<rparr>)))"

fun classify_files ::
  "environment \<Rightarrow> MetadataProcessor \<Rightarrow> int \<Rightarrow> buckets \<Rightarrow> string list
     \<Rightarrow> py_exception + buckets" where
  "classify_files env self y b [] = Inr b"
| "classify_files env self y b (file_path # rest) =
     (case classify_file env self y b file_path of
        Inl e \<Rightarrow> Inl e
      | Inr b' \<Rightarrow> classify_files env self y b' rest)"

text \<open>
  The paths the two nested loops visit, in their order:
  \<open>for root, _, files in os.walk(search_path): for name in files\<close>.
\<close>

definition walk_paths :: "environment \<Rightarrow> file_system \<Rightarrow> string \<Rightarrow> string list" where
  "walk_paths env fs search_path =
     concat (map (\<lambda>(root, dirs, files). map (os_path_join root) files)
                 (os_walk env fs search_path))"

section \<open>The report writer\<close>

text \<open>\<open>str(year)\<close> for a Python \<open>int\<close>, as the f-string \<open>f"{year}_..."\<close> renders it.\<close>

fun str_nat :: "nat \<Rightarrow> string" where
  "str_nat n =
     (if n < 10 then [''0123456789'' ! n]
      else str_nat (n div 10) @ [''0123456789'' ! (n mod 10)])"

declare str_nat.simps [simp del]

definition str_int :: "int \<Rightarrow> string" where
  "str_int i = (if i < 0 then ''-'' @ str_nat (nat (- i)) else str_nat (nat i))"

text \<open>
  \<open>for file in files: f.write(f"{file}\n")\<close> on an open file whose buffer holds
  \<open>written\<close> so far. An entry that cannot be encoded raises inside \<open>write\<close> and ends
  the loop with the buffer as it is.
\<close>

fun write_lines ::
  "environment \<Rightarrow> string list \<Rightarrow> string \<Rightarrow> py_exception option \<times> string" where
  "write_lines env [] written = (None, written)"
| "write_lines env (file # files) written =
     (case write_fails env (file @ [CHR 0x0A]) of
        Some e \<Rightarrow> (Some e, written)
      | None \<Rightarrow> write_lines env files (written @ file @ [CHR 0x0A]))"

text \<open>
  One of the two blocks that end \<open>process_directory\<close>: a non-empty list is written to
  \<open>output_file\<close>, opened with mode \<open>"w"\<close> (which empties it); for an empty list the
  file is removed when it exists. Leaving the \<open>with\<close> block, with or without an
  exception, closes the file, and the buffer goes to the operating system: when that
  stores every byte, the file holds the buffer and the block ends as the loop ended;
  when it fails, the file holds a leading part of the buffer, perhaps cut inside an
  entry, and \<open>OSError\<close> leaves the block. (Whether the failure shows at the close or
  at a \<open>write\<close> that flushes makes no difference to what the block leaves behind.)
  The first component of the result is the exception raised, \<open>None\<close> when the block ran
  to its end.
\<close>

definition write_report ::
  "environment \<Rightarrow> string \<Rightarrow> string list \<Rightarrow> file_system
     \<Rightarrow> py_exception option \<times> file_system" where
  "write_report env output_file files fs =
     (if length files > 0 then
        (case open_fails env output_file of
           Some e \<Rightarrow> (Some e, fs)
         | None \<Rightarrow>
             (case write_lines env files [] of
                (raised, written) \<Rightarrow>
                  (case disk_stores env output_file written of
                     None \<Rightarrow> (raised, fs(output_file \<mapsto> written))
                   | Some k \<Rightarrow> (Some OSError, fs(output_file \<mapsto> take k written)))))
      else if fs output_file \<noteq> None then
        (case remove_fails env output_file of
           Some e \<Rightarrow> (Some e, fs)
         | None \<Rightarrow> (None, fs(output_file := None)))
      else (None, fs))"

definition write_reports ::
  "environment \<Rightarrow> int \<Rightarrow> buckets \<Rightarrow> file_system \<Rightarrow> py_exception option \<times> file_system" where
  "write_reports env y b fs =
     (case write_report env (str_int y @ ''_non_matching_files.txt'')
             (non_matching_files b) fs of
        (Some e, fs') \<Rightarrow> (Some e, fs')
      | (None, fs') \<Rightarrow>
          write_report env (str_int y @ ''_failed_to_read_files.txt'')
            (failed_to_read_files b) fs')"

definition process_directory ::
  "environment \<Rightarrow> MetadataProcessor \<Rightarrow> string \<Rightarrow> int \<Rightarrow> file_system
     \<Rightarrow> py_exception option \<times> file_system" where
  "process_directory env self search_path y fs =
     (case classify_files env self y no_files (walk_paths env fs search_path) of
        Inl e \<Rightarrow> (Some e, fs)
      | Inr b \<Rightarrow> write_reports env y b fs)"

text \<open>The text of a report file: every entry followed by a newline.\<close>

definition report_text :: "string list \<Rightarrow> string" where
  "report_text files = concat (map (\<lambda>file. file @ [CHR 0x0A]) files)"

section \<open>The bucket table and the report files, as the specification words them\<close>

text \<open>
  The table of the Directory Classifier: the bucket is a function of the target year and
  of the extractor's outcome. A failed file carries the name of its result. The table has
  no row for a valid result without a timestamp.
\<close>

datatype bucket = Matching | NonMatching | Failed string

fun spec_bucket :: "int \<Rightarrow> ProcessingResult \<times> datetime option \<Rightarrow> bucket option" where
  "spec_bucket y (VALID_CREATION_TIMESTAMP, Some ts) =
     (if year ts = y then Some Matching else Some NonMatching)"
| "spec_bucket y (VALID_CREATION_TIMESTAMP, None) = None"
| "spec_bucket y (NO_METADATA, ts) = Some NonMatching"
| "spec_bucket y (FAILED_TO_READ, ts) = Some (Failed ''FAILED_TO_READ'')"
| "spec_bucket y (INVALID_TIMESTAMP_FORMAT, ts) = Some (Failed ''INVALID_TIMESTAMP_FORMAT'')"

text \<open>
  Where the table puts one path: nowhere when the path ends with the ignored extension,
  else where the table sends the outcome of the extractor.
\<close>

definition spec_placement ::
  "environment \<Rightarrow> MetadataProcessor \<Rightarrow> int \<Rightarrow> string \<Rightarrow> bucket option" where
  "spec_placement env self y file_path =
     (if endswith (lower file_path) ignore_files then None
      else (case get_creation_date env self file_path of
              Inl e \<Rightarrow> None
            | Inr outcome \<Rightarrow> spec_bucket y outcome))"

text \<open>The entry of a failed file: \<open>"{path} (error code: {ResultName})"\<close>.\<close>

definition spec_failed_entry ::
  "environment \<Rightarrow> MetadataProcessor \<Rightarrow> int \<Rightarrow> string \<Rightarrow> string list" where
  "spec_failed_entry env self y file_path =
     (case spec_placement env self y file_path of
        Some (Failed name) \<Rightarrow> [file_path @ '' (error code: '' @ name @ '')'']
      | _ \<Rightarrow> [])"

text \<open>
  The report file a bucket asks for: no file for an empty bucket, else one entry per line.
\<close>

definition spec_report_file :: "string list \<Rightarrow> string option" where
  "spec_report_file entries = (if entries = [] then None else Some (report_text entries))"

section \<open>A small archive to run the model on\<close>

text \<open>
  The tag numbers of Pillow's \<open>ExifTags.TAGS\<close>: DateTimeOriginal is \<open>0x9003\<close>,
  DateTimeDigitized \<open>0x9004\<close> and DateTime \<open>0x0132\<close>.
\<close>

definition pillow_tags :: MetadataProcessor where
  "pillow_tags =
     \<lparr>exif_DateTimeOriginal_tag = 36867, exit_DateTimeDigitized_tag = 36868,
      exif_DateTime_tag = 306, verbose = 0\<rparr>"

definition stamp :: "int \<Rightarrow> int \<Rightarrow> int \<Rightarrow> int \<Rightarrow> int \<Rightarrow> int \<Rightarrow> datetime" where
  "stamp y mo d h mi s =
     \<lparr>year = y, month = mo, day = d, hour = h, minute = mi, second = s, microsecond = 0\<rparr>"

text \<open>
  What Pillow reports for the image files of the archive. The two files under
  \<open>/p/odd\<close> carry a date tag that was not written with the ASCII type.
\<close>

definition example_exif ::
  "(string \<times> (py_exception + (nat \<times> pyval) list option)) list" where
  "example_exif =
     [(''/p/2020/a.jpg'',
         Inr (Some [(306, PyStr ''2020:01:01 00:00:00''),
                    (36867, PyStr ''2019:07:04 10:15:00'')])),
      (''/p/2020/B.JPG'', Inr (Some [(36868, PyStr ''2020:05:06 07:08:09'')])),
      (''/p/2020/raw/c.png'', Inr None),
      (''/p/2020/raw/d.jpg'',
         Inr (Some [(36868, PyStr []), (306, PyStr ''2020:01:01 00:00:00'')])),
      (''/p/odd/f.jpg'',
         Inr (Some [(36867, PyBytes [50, 48, 49, 57, 58, 48, 55, 58, 48, 52])])),
      (''/p/odd/g.jpg'', Inr (Some [(306, PyInt 2019)]))]"

definition example_probe :: "(string \<times> (py_exception + probe_result)) list" where
  "example_probe =
     [(''/p/2020/v.mp4'', Inr (Some (Some [(''creation_time'', ''2020-03-01 12:00:00'')]))),
      (''/p/2020/w.avi'', Inr (Some (Some [(''creation_time'', ''04/07/2021'')]))),
      (''/p/2020/x.mov'', Inr (Some (Some [(''encoder'', ''Lavf'')]))),
      (''/p/2020/k.M'' @ [CHR 0xE2, CHR 0x84, CHR 0xAA] @ ''V'',
         Inr (Some (Some [(''creation_time'', ''2020-03-01 12:00:00'')])))]"

text \<open>
  The answers of \<open>datetime.strptime\<close> on the strings of the archive; every pair that is
  not listed raises \<open>ValueError\<close>.
\<close>

definition example_strptime :: "((string \<times> string) \<times> datetime) list" where
  "example_strptime =
     [((''2019:07:04 10:15:00'', ''%Y:%m:%d %H:%M:%S''), stamp 2019 7 4 10 15 0),
      ((''2020:01:01 00:00:00'', ''%Y:%m:%d %H:%M:%S''), stamp 2020 1 1 0 0 0),
      ((''2020:05:06 07:08:09'', ''%Y:%m:%d %H:%M:%S''), stamp 2020 5 6 7 8 9),
      ((''2020-03-01 12:00:00'', ''%Y-%m-%d %H:%M:%S''), stamp 2020 3 1 12 0 0)]"

text \<open>
  The archive: a year directory with a subdirectory, scanned from a working directory
  that lies elsewhere. A file name that holds the byte \<open>0xFF\<close> is not valid UTF-8;
  Python reads it as a lone surrogate, and writing it to a text file raises
  \<open>UnicodeEncodeError\<close>.
\<close>

definition example_env :: environment where
  "example_env =
     \<lparr>Image_open_getexif =
        (\<lambda>p. case map_of example_exif p of Some r \<Rightarrow> r | None \<Rightarrow> Inl OSError),
      ffmpeg_probe =
        (\<lambda>p. case map_of example_probe p of Some r \<Rightarrow> r | None \<Rightarrow> Inl FfmpegError),
      strptime = (\<lambda>s f. map_of example_strptime (s, f)),
      os_walk =
        (\<lambda>fs p. if p = ''/p/2020''
              then [(''/p/2020'', [''raw''],
                       [''a.jpg'', ''B.JPG'', ''v.mp4'', ''w.avi'', ''n.bmp'']),
                    (''/p/2020/raw'', [], [''r.CR2'', ''c.png''])]
              else []),
      open_fails = (\<lambda>n. None),
      write_fails = (\<lambda>t. if CHR 0xFF \<in> set t then Some UnicodeEncodeError else None),
      disk_stores = (\<lambda>n t. None),
      remove_fails = (\<lambda>n. None)\<rparr>"

text \<open>The same archive on a system where no write fails.\<close>

definition quiet_env :: environment where
  "quiet_env = example_env\<lparr>write_fails := (\<lambda>t. None)\<rparr>"

text \<open>
  The script started inside the year directory: the working directory is
  \<open>/p/2020\<close>, which holds the one file \<open>n.bmp\<close>, and the walk lists the report
  files that exist next to it.
\<close>

definition inside_env :: environment where
  "inside_env =
     example_env\<lparr>os_walk :=
       (\<lambda>fs p. if p = ''/p/2020''
              then [(''/p/2020'', [],
                       ''n.bmp'' #
                       [n \<leftarrow> [''2020_failed_to_read_files.txt'',
                                ''2020_non_matching_files.txt'']. fs n \<noteq> None])]
              else [])\<rparr>"

text \<open>
  A disk with a size limit of twenty bytes for each file, as \<open>RLIMIT_FSIZE\<close> sets it.
\<close>

definition small_disk_env :: environment where
  "small_disk_env =
     quiet_env\<lparr>disk_stores := (\<lambda>n t. if length t \<le> 20 then None else Some 20)\<rparr>"

text \<open>
  Python's \<open>strptime\<close> raises \<open>ValueError\<close> for the empty string with each format
  of the two lists of the script (the EXIF format is also the last of the video formats).
\<close>

definition strptime_rejects_empty :: "environment \<Rightarrow> bool" where
  "strptime_rejects_empty env =
     list_all (\<lambda>f. strptime env [] f = None)
       [''%Y:%m:%d %H:%M:%S'', ''%Y-%m-%dT%H:%M:%S.%fZ'', ''%Y-%m-%d %H:%M:%S.%fZ'',
        ''%Y-%m-%d %H:%M:%S'']"

text \<open>A working directory that holds the reports of an earlier run.\<close>

definition stale_reports :: file_system where
  "stale_reports =
     [''2020_non_matching_files.txt'' \<mapsto> ''/p/2020/old.jpg'' @ [CHR 0x0A],
      ''2020_failed_to_read_files.txt'' \<mapsto>
         ''/p/2020/old.bmp (error code: FAILED_TO_READ)'' @ [CHR 0x0A]]"

text \<open>The three lists after the walk over the archive, for the target year 2020.\<close>

definition example_buckets :: buckets where
  "example_buckets =
     \<lparr>matching_files = [''/p/2020/B.JPG'', ''/p/2020/v.mp4''],
      non_matching_files = [''/p/2020/a.jpg'', ''/p/2020/raw/c.png''],
      failed_to_read_files =
        [''/p/2020/w.avi (error code: INVALID_TIMESTAMP_FORMAT)'',
         ''/p/2020/n.bmp (error code: FAILED_TO_READ)'']\<rparr>"

text \<open>
  A non-matching list whose second path holds the byte \<open>0xFF\<close>, and a list with
  nothing to report.
\<close>

definition unwritable_list :: "string list" where
  "unwritable_list = [''/p/2020/a.jpg'', ''/p/2020/b'' @ [CHR 0xFF] @ ''.jpg'', ''/p/2020/c.jpg'']"

definition clean_buckets :: buckets where
  "clean_buckets =
     \<lparr>matching_files = [''/p/2020/B.JPG''], non_matching_files = [''/p/2020/a.jpg''],
      failed_to_read_files = []\<rparr>"

section \<open>Lemmas on strings\<close>

lemma endswith_iff: "endswith s suf \<longleftrightarrow> (\<exists>zs. s = zs @ suf)"
proof
  assume "endswith s suf"
  then have "s = take (length s - length suf) s @ suf"
    by (metis append_take_drop_id endswith_def)
  then show "\<exists>zs. s = zs @ suf" by blast
next
  assume "\<exists>zs. s = zs @ suf"
  then show "endswith s suf" by (auto simp: endswith_def)
qed

lemma endswith_last: "endswith s suf \<Longrightarrow> suf \<noteq> [] \<Longrightarrow> last s = last suf"
  by (auto simp: endswith_iff)

text \<open>
  No path is an image and a video at once: the image suffixes end with \<open>g\<close>, \<open>f\<close> or
  \<open>c\<close>, the video suffixes with \<open>4\<close>, \<open>v\<close> or \<open>i\<close>. So the \<open>elif\<close> branch is taken
  by every path with a video suffix.
\<close>

lemma video_not_image:
  "endswith_any s video_files_for_ffmpeg \<Longrightarrow>
     \<not> endswith_any s image_files_with_EXIF_metadata"
  by (auto simp: endswith_any_def video_files_for_ffmpeg_def
        image_files_with_EXIF_metadata_def dest!: endswith_last)

lemma report_names_differ:
  "str_int y @ ''_non_matching_files.txt'' \<noteq> str_int y @ ''_failed_to_read_files.txt''"
  by simp

lemma str_int_2020: "str_int 2020 = ''2020''"
  by (simp add: str_int_def str_nat.simps)

section \<open>Lemmas on the parser and the extractor\<close>

lemma try_parse_date_str: "try_parse_date env (PyStr s) f = Inr (strptime env s f)"
  by (simp add: try_parse_date_def datetime_strptime_def split: option.splits)

lemma parse_first_success:
  "(\<forall>g\<in>set pre. strptime env s g = None) \<Longrightarrow> strptime env s f = Some t \<Longrightarrow>
     parse_date_formats env (PyStr s) (pre @ f # post)
       = Inr (VALID_CREATION_TIMESTAMP, Some t)"
  by (induction pre) (simp_all add: try_parse_date_str)

lemma parse_invalid_iff:
  "parse_date_formats env (PyStr s) fs = Inr (INVALID_TIMESTAMP_FORMAT, None)
     \<longleftrightarrow> (\<forall>f\<in>set fs. strptime env s f = None)"
  by (induction fs) (auto simp: try_parse_date_str split: option.splits)

lemma parse_str_returns:
  "\<exists>r ts. parse_date_formats env (PyStr s) fs = Inr (r, ts)
      \<and> (ts = None \<longleftrightarrow> (\<forall>f\<in>set fs. strptime env s f = None))"
  by (induction fs) (auto simp: try_parse_date_str split: option.splits)

lemma parse_outcome_shape:
  "parse_date_formats env v fs = Inr (r, ts) \<Longrightarrow>
     (r = VALID_CREATION_TIMESTAMP \<and> ts \<noteq> None) \<or> (r = INVALID_TIMESTAMP_FORMAT \<and> ts = None)"
  by (induction fs) (auto split: sum.splits option.splits)

lemma parse_single_format:
  "parse_date_formats env v [f] =
     (case try_parse_date env v f of
        Inl e \<Rightarrow> Inl e
      | Inr (Some t) \<Rightarrow> Inr (VALID_CREATION_TIMESTAMP, Some t)
      | Inr None \<Rightarrow> Inr (INVALID_TIMESTAMP_FORMAT, None))"
  by (simp split: sum.splits option.splits)

lemma scan_first_present:
  "i < length keys \<Longrightarrow> map_of d (keys ! i) = Some v \<Longrightarrow>
   (\<forall>j<i. map_of d (keys ! j) = None) \<Longrightarrow>
     scan_exif_keys keys d = (v, [''%Y:%m:%d %H:%M:%S''])"
proof (induction keys arbitrary: i)
  case Nil
  then show ?case by simp
next
  case (Cons k ks)
  show ?case
  proof (cases i)
    case 0
    with Cons.prems show ?thesis by simp
  next
    case (Suc n)
    with Cons.prems have k: "map_of d k = None" by auto
    from Suc Cons.prems have "n < length ks" "map_of d (ks ! n) = Some v"
      "\<forall>j<n. map_of d (ks ! j) = None" by auto
    then have "scan_exif_keys ks d = (v, [''%Y:%m:%d %H:%M:%S''])"
      by (rule Cons.IH)
    with k show ?thesis by simp
  qed
qed

lemma scan_value_from_exif:
  "scan_exif_keys keys d = (v, fs) \<Longrightarrow> v = PyStr [] \<or> (\<exists>k. map_of d k = Some v)"
  by (induction keys) (auto split: option.splits)

text \<open>An outcome returned from inside the \<open>try\<close> block is an error without a timestamp.\<close>

lemma try_block_return_shape:
  "try_block_of env self p = Return (r, ts) \<Longrightarrow> r \<noteq> VALID_CREATION_TIMESTAMP \<and> ts = None"
  by (auto simp: try_block_of_def split: if_splits sum.splits option.splits prod.splits)

text \<open>
  On every path on which \<open>get_creation_date\<close> returns, the timestamp is there exactly
  for \<open>VALID_CREATION_TIMESTAMP\<close>.
\<close>

lemma get_creation_date_timestamp_iff:
  "get_creation_date env self p = Inr (r, ts) \<Longrightarrow>
     (ts \<noteq> None \<longleftrightarrow> r = VALID_CREATION_TIMESTAMP)"
  unfolding get_creation_date_def
  by (auto split: try_block.splits dest: try_block_return_shape parse_outcome_shape)

text \<open>An exception of the decoder or of the prober becomes \<open>FAILED_TO_READ\<close>.\<close>

lemma get_creation_date_decode_error:
  "endswith_any (lower p) image_files_with_EXIF_metadata \<Longrightarrow>
   Image_open_getexif env p = Inl e \<Longrightarrow>
     get_creation_date env self p = Inr (FAILED_TO_READ, None)"
  by (simp add: get_creation_date_def try_block_of_def)

lemma get_creation_date_probe_error:
  "endswith_any (lower p) video_files_for_ffmpeg \<Longrightarrow> ffmpeg_probe env p = Inl e \<Longrightarrow>
     get_creation_date env self p = Inr (FAILED_TO_READ, None)"
  using video_not_image [of "lower p"]
  by (simp add: get_creation_date_def try_block_of_def)

text \<open>
  The value that reaches the format loop is a video tag, which is a string, or a value of
  the EXIF dictionary.
\<close>

lemma fall_through_value:
  "try_block_of env self p = Fall_through v fs \<Longrightarrow>
     (\<exists>s. v = PyStr s) \<or> (\<exists>d k. Image_open_getexif env p = Inr (Some d) \<and> map_of d k = Some v)"
  by (auto simp: try_block_of_def
        split: if_splits sum.splits option.splits prod.splits
        dest: scan_value_from_exif)

text \<open>When the EXIF values of a file are strings, the extractor returns an outcome.\<close>

lemma get_creation_date_returns_on_strings:
  assumes "\<And>d k v. Image_open_getexif env p = Inr (Some d) \<Longrightarrow> map_of d k = Some v
             \<Longrightarrow> \<exists>s. v = PyStr s"
  shows "\<exists>r ts. get_creation_date env self p = Inr (r, ts)"
proof (cases "try_block_of env self p")
  case (Return outcome)
  then show ?thesis by (cases outcome) (simp add: get_creation_date_def)
next
  case (Fall_through v fs)
  with assms fall_through_value [OF Fall_through] obtain s where "v = PyStr s" by blast
  with Fall_through parse_str_returns [of env s fs] show ?thesis
    by (auto simp: get_creation_date_def)
qed

section \<open>Lemmas on the classifier and on the report writer\<close>

lemma classify_file_placement:
  assumes "classify_file env self y b p = Inr b'"
  shows "matching_files b' =
           matching_files b @ (if spec_placement env self y p = Some Matching then [p] else [])
    \<and> non_matching_files b' =
           non_matching_files b
             @ (if spec_placement env self y p = Some NonMatching then [p] else [])
    \<and> failed_to_read_files b' = failed_to_read_files b @ spec_failed_entry env self y p
    \<and> (\<not> endswith (lower p) ignore_files \<longrightarrow> spec_placement env self y p \<noteq> None)"
proof (cases "endswith (lower p) ignore_files")
  case True
  with assms show ?thesis
    by (simp add: classify_file_def spec_placement_def spec_failed_entry_def)
next
  case False
  with assms obtain r ts where g: "get_creation_date env self p = Inr (r, ts)"
    by (cases "get_creation_date env self p") (auto simp: classify_file_def)
  show ?thesis
    using assms False g
    by (cases r; cases ts)
       (auto simp: classify_file_def spec_placement_def spec_failed_entry_def
             split: if_splits)
qed

lemma classify_files_placement:
  "classify_files env self y b ps = Inr b' \<Longrightarrow>
     matching_files b' =
        matching_files b @ [p \<leftarrow> ps. spec_placement env self y p = Some Matching]
   \<and> non_matching_files b' =
        non_matching_files b @ [p \<leftarrow> ps. spec_placement env self y p = Some NonMatching]
   \<and> failed_to_read_files b' =
        failed_to_read_files b @ concat (map (spec_failed_entry env self y) ps)
   \<and> (\<forall>p\<in>set ps. \<not> endswith (lower p) ignore_files
         \<longrightarrow> spec_placement env self y p \<noteq> None)"
proof (induction ps arbitrary: b)
  case Nil
  then show ?case by simp
next
  case (Cons p ps)
  from Cons.prems obtain b1 where
    s: "classify_file env self y b p = Inr b1" and
    r: "classify_files env self y b1 ps = Inr b'"
    by (auto split: sum.splits)
  from Cons.IH [OF r] classify_file_placement [OF s] show ?case by simp
qed

lemma write_lines_find:
  "write_lines env files written =
     (case find (\<lambda>file. write_fails env (file @ [CHR 0x0A]) \<noteq> None) files of
        None \<Rightarrow> (None, written @ report_text files)
      | Some file \<Rightarrow>
          (write_fails env (file @ [CHR 0x0A]),
           written @ report_text
             (takeWhile (\<lambda>file. write_fails env (file @ [CHR 0x0A]) = None) files)))"
  by (induction files arbitrary: written)
     (auto simp: report_text_def split: option.splits)

lemma write_report_no_failure:
  assumes "open_fails env n = None"
      and "\<forall>file\<in>set files. write_fails env (file @ [CHR 0x0A]) = None"
      and "disk_stores env n (report_text files) = None"
      and "remove_fails env n = None"
  shows "write_report env n files fs = (None, fs(n := spec_report_file files))"
proof -
  have "find (\<lambda>file. write_fails env (file @ [CHR 0x0A]) \<noteq> None) files = None"
    using assms(2) by (simp add: find_None_iff)
  then have "write_lines env files [] = (None, report_text files)"
    by (simp add: write_lines_find)
  with assms(1,3,4) show ?thesis
    by (auto simp: write_report_def spec_report_file_def)
qed

text \<open>What the loop has buffered is a leading part of the text of the whole list.\<close>

lemma write_lines_buffer:
  "\<exists>rest. report_text files = snd (write_lines env files []) @ rest"
proof (cases "find (\<lambda>file. write_fails env (file @ [CHR 0x0A]) \<noteq> None) files")
  case None
  then show ?thesis by (simp add: write_lines_find)
next
  case (Some bad)
  have "report_text files =
      report_text (takeWhile (\<lambda>file. write_fails env (file @ [CHR 0x0A]) = None) files)
      @ report_text (dropWhile (\<lambda>file. write_fails env (file @ [CHR 0x0A]) = None) files)"
    unfolding report_text_def
    by (metis concat_append map_append takeWhile_dropWhile_id)
  with Some show ?thesis by (simp add: write_lines_find)
qed

lemma write_lines_complete:
  "fst (write_lines env files written) = None \<Longrightarrow>
     snd (write_lines env files written) = written @ report_text files"
  by (induction files arbitrary: written)
     (auto simp: report_text_def split: option.splits)

lemma reachable_format_lists:
  "try_block_of env self p = Fall_through v fs \<Longrightarrow>
     fs = [''%Y:%m:%d %H:%M:%S'']
     \<or> fs = [''%Y-%m-%dT%H:%M:%S.%fZ'', ''%Y-%m-%d %H:%M:%S.%fZ'', ''%Y-%m-%d %H:%M:%S'',
             ''%Y:%m:%d %H:%M:%S'']"
proof -
  have scan: "snd (scan_exif_keys keys d) = [] \<and> fst (scan_exif_keys keys d) = PyStr []
      \<or> snd (scan_exif_keys keys d) = [''%Y:%m:%d %H:%M:%S'']" for keys d
    by (induction keys) (auto split: option.splits)
  assume "try_block_of env self p = Fall_through v fs"
  then show ?thesis
    using scan
    by (fastforce simp: try_block_of_def
          split: if_splits sum.splits option.splits prod.splits)
qed

lemma write_report_again:
  "write_report env n files fs = (r, fs1) \<Longrightarrow> write_report env n files fs1 = (r, fs1)"
  by (auto simp: write_report_def split: if_splits option.splits prod.splits)

lemma write_report_settled:
  "write_report env n files fs = (None, fs1) \<Longrightarrow> fs' n = fs1 n \<Longrightarrow>
     write_report env n files fs' = (None, fs')"
  by (auto simp: write_report_def fun_upd_idem_iff
        split: if_splits option.splits prod.splits)

lemma write_report_other:
  "write_report env n files fs = (r, fs1) \<Longrightarrow> m \<noteq> n \<Longrightarrow> fs1 m = fs m"
  by (auto simp: write_report_def split: if_splits option.splits prod.splits)

lemma write_reports_again:
  "write_reports env y b (snd (write_reports env y b fs)) = write_reports env y b fs"
proof -
  let ?n1 = "str_int y @ ''_non_matching_files.txt''"
  let ?n2 = "str_int y @ ''_failed_to_read_files.txt''"
  obtain r1 fs1 where w1: "write_report env ?n1 (non_matching_files b) fs = (r1, fs1)"
    by (cases "write_report env ?n1 (non_matching_files b) fs") auto
  show ?thesis
  proof (cases r1)
    case (Some e)
    with w1 write_report_again [OF w1] show ?thesis by (simp add: write_reports_def)
  next
    case None
    obtain r2 fs2 where w2: "write_report env ?n2 (failed_to_read_files b) fs1 = (r2, fs2)"
      by (cases "write_report env ?n2 (failed_to_read_files b) fs1") auto
    have first: "write_reports env y b fs = (r2, fs2)"
      using w1 None w2 by (simp add: write_reports_def)
    have "fs2 ?n1 = fs1 ?n1"
      using write_report_other [OF w2, of ?n1] report_names_differ by blast
    with w1 None have "write_report env ?n1 (non_matching_files b) fs2 = (None, fs2)"
      using write_report_settled by blast
    moreover have "write_report env ?n2 (failed_to_read_files b) fs2 = (r2, fs2)"
      using w2 by (rule write_report_again)
    ultimately have "write_reports env y b fs2 = (r2, fs2)"
      by (simp add: write_reports_def)
    with first show ?thesis by simp
  qed
qed

section \<open>The archive, evaluated\<close>

lemmas archive_defs =
  example_env_def example_exif_def example_probe_def example_strptime_def
  pillow_tags_def stamp_def

lemmas extractor_defs =
  get_creation_date_def try_block_of_def endswith_any_def endswith_def
  lower_char_def image_files_with_EXIF_metadata_def video_files_for_ffmpeg_def
  try_parse_date_def datetime_strptime_def

lemma archive_walk:
  "walk_paths example_env fs ''/p/2020'' =
     [''/p/2020/a.jpg'', ''/p/2020/B.JPG'', ''/p/2020/v.mp4'', ''/p/2020/w.avi'',
      ''/p/2020/n.bmp'', ''/p/2020/raw/r.CR2'', ''/p/2020/raw/c.png'']"
  by (simp add: walk_paths_def example_env_def os_path_join_def endswith_def)

lemma outcome_a_jpg:
  "get_creation_date example_env pillow_tags ''/p/2020/a.jpg''
     = Inr (VALID_CREATION_TIMESTAMP, Some (stamp 2019 7 4 10 15 0))"
  by (simp add: extractor_defs archive_defs)

lemma outcome_B_JPG:
  "get_creation_date example_env pillow_tags ''/p/2020/B.JPG''
     = Inr (VALID_CREATION_TIMESTAMP, Some (stamp 2020 5 6 7 8 9))"
  by (simp add: extractor_defs archive_defs)

lemma outcome_v_mp4:
  "get_creation_date example_env pillow_tags ''/p/2020/v.mp4''
     = Inr (VALID_CREATION_TIMESTAMP, Some (stamp 2020 3 1 12 0 0))"
  by (simp add: extractor_defs archive_defs)

lemma outcome_w_avi:
  "get_creation_date example_env pillow_tags ''/p/2020/w.avi''
     = Inr (INVALID_TIMESTAMP_FORMAT, None)"
  by (simp add: extractor_defs archive_defs)

lemma outcome_n_bmp:
  "get_creation_date example_env pillow_tags ''/p/2020/n.bmp'' = Inr (FAILED_TO_READ, None)"
  by (simp add: extractor_defs archive_defs)

lemma outcome_c_png:
  "get_creation_date example_env pillow_tags ''/p/2020/raw/c.png'' = Inr (NO_METADATA, None)"
  by (simp add: extractor_defs archive_defs)

lemma archive_classified:
  "classify_files example_env pillow_tags 2020 no_files
       (walk_paths example_env fs ''/p/2020'')
     = Inr example_buckets"
  by (simp add: archive_walk classify_file_def no_files_def example_buckets_def
        outcome_a_jpg outcome_B_JPG outcome_v_mp4 outcome_w_avi outcome_n_bmp outcome_c_png
        stamp_def endswith_def lower_char_def ignore_files_def)

section \<open>The claims\<close>

subsection \<open>C1: the bucket of a file\<close>

text \<open>
  Claim C1. Every file the Directory Classifier processes, that is every path of the walk
  that does not end with the ignored extension, is placed by the extractor's outcome and
  the target year alone: a valid timestamp of the target year goes to the matching list, a
  valid timestamp of another year and \<open>NO_METADATA\<close> go to the non-matching list,
  \<open>FAILED_TO_READ\<close> and \<open>INVALID_TIMESTAMP_FORMAT\<close> go to the failed list with the
  name of the result appended. The three lists of a walk that ran to its end are the
  paths the table of the specification sends there, in the order of the walk, and every
  processed path has an outcome with a row in the table.
\<close>

theorem classify_files_buckets_by_outcome:
  assumes "classify_files env self y no_files ps = Inr b"
  shows "matching_files b = [p \<leftarrow> ps. spec_placement env self y p = Some Matching]
    \<and> non_matching_files b = [p \<leftarrow> ps. spec_placement env self y p = Some NonMatching]
    \<and> failed_to_read_files b = concat (map (spec_failed_entry env self y) ps)
    \<and> (\<forall>p\<in>set ps. \<not> endswith (lower p) ignore_files \<longrightarrow>
          (\<exists>outcome bk. get_creation_date env self p = Inr outcome
              \<and> spec_bucket y outcome = Some bk))"
proof -
  from classify_files_placement [OF assms]
  have lists: "matching_files b = [p \<leftarrow> ps. spec_placement env self y p = Some Matching]"
    "non_matching_files b = [p \<leftarrow> ps. spec_placement env self y p = Some NonMatching]"
    "failed_to_read_files b = concat (map (spec_failed_entry env self y) ps)"
    and placed: "\<forall>p\<in>set ps. \<not> endswith (lower p) ignore_files
          \<longrightarrow> spec_placement env self y p \<noteq> None"
    by (simp_all add: no_files_def)
  have "\<exists>outcome bk. get_creation_date env self p = Inr outcome
            \<and> spec_bucket y outcome = Some bk"
    if "p \<in> set ps" "\<not> endswith (lower p) ignore_files" for p
  proof -
    from placed that have "spec_placement env self y p \<noteq> None" by blast
    with that(2) show ?thesis
      by (cases "get_creation_date env self p") (auto simp: spec_placement_def)
  qed
  with lists show ?thesis by blast
qed

theorem classify_files_buckets_by_outcome_witness:
  "classify_files example_env pillow_tags 2020 no_files
       (walk_paths example_env stale_reports ''/p/2020'')
     = Inr example_buckets
   \<and> [p \<leftarrow> walk_paths example_env stale_reports ''/p/2020''.
         spec_placement example_env pillow_tags 2020 p = Some Matching]
       = [''/p/2020/B.JPG'', ''/p/2020/v.mp4'']
   \<and> [p \<leftarrow> walk_paths example_env stale_reports ''/p/2020''.
         spec_placement example_env pillow_tags 2020 p = Some NonMatching]
       = [''/p/2020/a.jpg'', ''/p/2020/raw/c.png'']
   \<and> concat (map (spec_failed_entry example_env pillow_tags 2020)
         (walk_paths example_env stale_reports ''/p/2020''))
       = [''/p/2020/w.avi (error code: INVALID_TIMESTAMP_FORMAT)'',
          ''/p/2020/n.bmp (error code: FAILED_TO_READ)'']"
  using classify_files_buckets_by_outcome [OF archive_classified [of stale_reports]]
    archive_classified [of stale_reports]
  by (simp add: example_buckets_def)

subsection \<open>C2: an exception that leaves the extractor\<close>

text \<open>
  Claim C2 says that \<open>get_creation_date\<close> returns an outcome for every file path and
  never lets an exception reach its caller. The \<open>try\<close> block does turn every exception
  of the decoder and of the prober into \<open>FAILED_TO_READ\<close>
  (\<open>get_creation_date_decode_error\<close>, \<open>get_creation_date_probe_error\<close>), but the
  format loop stands after the block, and \<open>try_parse_date\<close> catches \<open>ValueError\<close>
  only. For the image \<open>/p/odd/f.jpg\<close>, whose DateTimeOriginal tag holds bytes, the call
  of \<open>strptime\<close> raises \<open>TypeError\<close>, and the exception leaves the extractor.
\<close>

theorem get_creation_date_raises_on_bytes_value:
  "get_creation_date example_env pillow_tags ''/p/odd/f.jpg'' = Inl TypeError"
  by (simp add: extractor_defs archive_defs)

subsection \<open>C3: the first format that fits\<close>

text \<open>
  Claim C3. For every candidate string and every list of formats the loop tries the
  formats in the order of the list and returns the parse of the first one that succeeds:
  when the formats before \<open>f\<close> fail and \<open>f\<close> gives \<open>t\<close>, the result is \<open>t\<close>,
  whatever follows \<open>f\<close>. The loop returns for a string candidate, and it returns no
  timestamp exactly when every format fails. A candidate that fits the third of four
  formats and neither the first nor the second yields the value of the third. The loop
  receives no other lists than the two that \<open>get_creation_date\<close> builds
  (\<open>reachable_format_lists\<close>); Python's \<open>strptime\<close> rejects the empty string for each
  of their formats, so for these lists the loop returns no timestamp exactly when every
  format fails or the candidate is empty.
\<close>

theorem parse_date_formats_first_match:
  "(\<forall>pre f post t. fs = pre @ f # post \<and> (\<forall>g\<in>set pre. strptime env s g = None)
        \<and> strptime env s f = Some t
      \<longrightarrow> parse_date_formats env (PyStr s) fs = Inr (VALID_CREATION_TIMESTAMP, Some t))
   \<and> (parse_date_formats env (PyStr s) fs = Inr (INVALID_TIMESTAMP_FORMAT, None)
        \<longleftrightarrow> (\<forall>f\<in>set fs. strptime env s f = None))
   \<and> (\<exists>r ts. parse_date_formats env (PyStr s) fs = Inr (r, ts)
        \<and> (ts = None \<longleftrightarrow> (\<forall>f\<in>set fs. strptime env s f = None)))
   \<and> (\<forall>f1 f2 f3 f4 t. strptime env s f1 = None \<and> strptime env s f2 = None
        \<and> strptime env s f3 = Some t
      \<longrightarrow> parse_date_formats env (PyStr s) [f1, f2, f3, f4]
            = Inr (VALID_CREATION_TIMESTAMP, Some t))
   \<and> ((fs = [''%Y:%m:%d %H:%M:%S'']
         \<or> fs = [''%Y-%m-%dT%H:%M:%S.%fZ'', ''%Y-%m-%d %H:%M:%S.%fZ'',
                  ''%Y-%m-%d %H:%M:%S'', ''%Y:%m:%d %H:%M:%S''])
        \<and> strptime_rejects_empty env
      \<longrightarrow> (\<exists>r ts. parse_date_formats env (PyStr s) fs = Inr (r, ts)
            \<and> (ts = None \<longleftrightarrow> (\<forall>f\<in>set fs. strptime env s f = None) \<or> s = [])))"
proof -
  have a: "\<forall>pre f post t. fs = pre @ f # post \<and> (\<forall>g\<in>set pre. strptime env s g = None)
        \<and> strptime env s f = Some t
      \<longrightarrow> parse_date_formats env (PyStr s) fs = Inr (VALID_CREATION_TIMESTAMP, Some t)"
    using parse_first_success by blast
  have d: "\<forall>f1 f2 f3 f4 t. strptime env s f1 = None \<and> strptime env s f2 = None
        \<and> strptime env s f3 = Some t
      \<longrightarrow> parse_date_formats env (PyStr s) [f1, f2, f3, f4]
            = Inr (VALID_CREATION_TIMESTAMP, Some t)"
    by (simp add: try_parse_date_str)
  have e: "\<exists>r ts. parse_date_formats env (PyStr s) fs = Inr (r, ts)
            \<and> (ts = None \<longleftrightarrow> (\<forall>f\<in>set fs. strptime env s f = None) \<or> s = [])"
    if lists: "fs = [''%Y:%m:%d %H:%M:%S'']
         \<or> fs = [''%Y-%m-%dT%H:%M:%S.%fZ'', ''%Y-%m-%d %H:%M:%S.%fZ'',
                  ''%Y-%m-%d %H:%M:%S'', ''%Y:%m:%d %H:%M:%S'']"
      and lib: "strptime_rejects_empty env"
  proof -
    from lists lib have "\<forall>f\<in>set fs. strptime env [] f = None"
      by (auto simp: strptime_rejects_empty_def)
    then have "s = [] \<longrightarrow> (\<forall>f\<in>set fs. strptime env s f = None)" by auto
    with parse_str_returns [of env s fs] show ?thesis by blast
  qed
  show ?thesis
    using a d e parse_str_returns [of env s fs] parse_invalid_iff [of env s fs]
    by blast
qed

theorem parse_date_formats_first_match_witness:
  "strptime example_env ''2020-03-01 12:00:00'' ''%Y-%m-%dT%H:%M:%S.%fZ'' = None
   \<and> strptime example_env ''2020-03-01 12:00:00'' ''%Y-%m-%d %H:%M:%S.%fZ'' = None
   \<and> strptime example_env ''2020-03-01 12:00:00'' ''%Y-%m-%d %H:%M:%S''
        = Some (stamp 2020 3 1 12 0 0)
   \<and> parse_date_formats example_env (PyStr ''2020-03-01 12:00:00'')
        [''%Y-%m-%dT%H:%M:%S.%fZ'', ''%Y-%m-%d %H:%M:%S.%fZ'', ''%Y-%m-%d %H:%M:%S'',
         ''%Y:%m:%d %H:%M:%S'']
        = Inr (VALID_CREATION_TIMESTAMP, Some (stamp 2020 3 1 12 0 0))
   \<and> strptime_rejects_empty example_env
   \<and> (\<exists>r. parse_date_formats example_env (PyStr [])
        [''%Y-%m-%dT%H:%M:%S.%fZ'', ''%Y-%m-%d %H:%M:%S.%fZ'', ''%Y-%m-%d %H:%M:%S'',
         ''%Y:%m:%d %H:%M:%S''] = Inr (r, None))"
proof -
  let ?video = "[''%Y-%m-%dT%H:%M:%S.%fZ'', ''%Y-%m-%d %H:%M:%S.%fZ'',
                 ''%Y-%m-%d %H:%M:%S'', ''%Y:%m:%d %H:%M:%S'']"
  have h1: "strptime example_env ''2020-03-01 12:00:00'' ''%Y-%m-%dT%H:%M:%S.%fZ'' = None"
    by (simp add: archive_defs)
  have h2: "strptime example_env ''2020-03-01 12:00:00'' ''%Y-%m-%d %H:%M:%S.%fZ'' = None"
    by (simp add: archive_defs)
  have h3: "strptime example_env ''2020-03-01 12:00:00'' ''%Y-%m-%d %H:%M:%S''
              = Some (stamp 2020 3 1 12 0 0)"
    by (simp add: archive_defs)
  have lib: "strptime_rejects_empty example_env"
    by (simp add: strptime_rejects_empty_def archive_defs)
  from parse_date_formats_first_match [of ?video example_env "''2020-03-01 12:00:00''"]
    h1 h2 h3
  have third: "parse_date_formats example_env (PyStr ''2020-03-01 12:00:00'') ?video
        = Inr (VALID_CREATION_TIMESTAMP, Some (stamp 2020 3 1 12 0 0))"
    by blast
  from parse_date_formats_first_match [of ?video example_env "[]"] lib
  have "\<exists>r ts. parse_date_formats example_env (PyStr []) ?video = Inr (r, ts)
          \<and> (ts = None \<longleftrightarrow> (\<forall>f\<in>set ?video. strptime example_env [] f = None) \<or> True)"
    by simp
  then have empty: "\<exists>r. parse_date_formats example_env (PyStr []) ?video = Inr (r, None)"
    by auto
  from h1 h2 h3 third lib empty show ?thesis by blast
qed

subsection \<open>C4: the priority of the EXIF date fields\<close>

text \<open>
  Claim C4. For an image path whose metadata Pillow can read, the candidate is the value
  of DateTimeOriginal when that tag is present, else of DateTimeDigitized, else of
  DateTime; the fields after the first present one play no part. The candidate is given to
  the one format \<open>%Y:%m:%d %H:%M:%S\<close>, and when none of the three tags is present the
  outcome is \<open>NO_METADATA\<close>.
\<close>

theorem image_candidate_priority:
  assumes img: "endswith_any (lower p) image_files_with_EXIF_metadata"
      and rd: "Image_open_getexif env p = Inr (Some d)"
  shows "get_creation_date env self p =
     (let candidate = (\<lambda>v.
            if v = PyStr [] then Inr (NO_METADATA, None)
            else (case try_parse_date env v ''%Y:%m:%d %H:%M:%S'' of
                    Inl e \<Rightarrow> Inl e
                  | Inr (Some t) \<Rightarrow> Inr (VALID_CREATION_TIMESTAMP, Some t)
                  | Inr None \<Rightarrow> Inr (INVALID_TIMESTAMP_FORMAT, None)))
      in case map_of d (exif_DateTimeOriginal_tag self) of
           Some v \<Rightarrow> candidate v
         | None \<Rightarrow>
            (case map_of d (exit_DateTimeDigitized_tag self) of
               Some v \<Rightarrow> candidate v
             | None \<Rightarrow>
                (case map_of d (exif_DateTime_tag self) of
                   Some v \<Rightarrow> candidate v
                 | None \<Rightarrow> Inr (NO_METADATA, None))))"
proof -
  let ?k1 = "exif_DateTimeOriginal_tag self"
  let ?k2 = "exit_DateTimeDigitized_tag self"
  let ?k3 = "exif_DateTime_tag self"
  have tb: "try_block_of env self p =
      (if d = [] then Return (NO_METADATA, None)
       else (case scan_exif_keys [?k1, ?k2, ?k3] d of
               (date_str, date_formats) \<Rightarrow>
                 if date_str = PyStr [] then Return (NO_METADATA, None)
                 else Fall_through date_str date_formats))"
    using img rd by (simp add: try_block_of_def)
  have found: "get_creation_date env self p =
      (if v = PyStr [] then Inr (NO_METADATA, None)
       else (case try_parse_date env v ''%Y:%m:%d %H:%M:%S'' of
               Inl e \<Rightarrow> Inl e
             | Inr (Some t) \<Rightarrow> Inr (VALID_CREATION_TIMESTAMP, Some t)
             | Inr None \<Rightarrow> Inr (INVALID_TIMESTAMP_FORMAT, None)))"
    if "scan_exif_keys [?k1, ?k2, ?k3] d = (v, [''%Y:%m:%d %H:%M:%S''])" "d \<noteq> []" for v
    using that tb parse_single_format [of env v "''%Y:%m:%d %H:%M:%S''"]
    by (simp add: get_creation_date_def del: parse_date_formats.simps)
  show ?thesis
  proof (cases "map_of d ?k1")
    case (Some v)
    then have "d \<noteq> []" by auto
    with Some found [of v] show ?thesis by (simp add: Let_def)
  next
    case n1: None
    show ?thesis
    proof (cases "map_of d ?k2")
      case (Some v)
      then have "d \<noteq> []" by auto
      with n1 Some found [of v] show ?thesis by (simp add: Let_def)
    next
      case n2: None
      show ?thesis
      proof (cases "map_of d ?k3")
        case (Some v)
        then have "d \<noteq> []" by auto
        with n1 n2 Some found [of v] show ?thesis by (simp add: Let_def)
      next
        case n3: None
        with n1 n2 tb show ?thesis by (simp add: get_creation_date_def Let_def)
      qed
    qed
  qed
qed

theorem image_candidate_priority_witness:
  "endswith_any (lower ''/p/2020/a.jpg'') image_files_with_EXIF_metadata
   \<and> Image_open_getexif example_env ''/p/2020/a.jpg''
       = Inr (Some [(306, PyStr ''2020:01:01 00:00:00''),
                    (36867, PyStr ''2019:07:04 10:15:00'')])
   \<and> get_creation_date example_env pillow_tags ''/p/2020/a.jpg''
       = Inr (VALID_CREATION_TIMESTAMP, Some (stamp 2019 7 4 10 15 0))"
proof -
  have img: "endswith_any (lower ''/p/2020/a.jpg'') image_files_with_EXIF_metadata"
    by (simp add: endswith_any_def endswith_def lower_char_def
          image_files_with_EXIF_metadata_def)
  have rd: "Image_open_getexif example_env ''/p/2020/a.jpg''
       = Inr (Some [(306, PyStr ''2020:01:01 00:00:00''),
                    (36867, PyStr ''2019:07:04 10:15:00'')])"
    by (simp add: archive_defs)
  from image_candidate_priority [OF img rd, of pillow_tags]
  have "get_creation_date example_env pillow_tags ''/p/2020/a.jpg''
       = Inr (VALID_CREATION_TIMESTAMP, Some (stamp 2019 7 4 10 15 0))"
    by (simp add: Let_def try_parse_date_def datetime_strptime_def archive_defs)
  with img rd show ?thesis by blast
qed

subsection \<open>C5: the creation time of a video\<close>

text \<open>
  Claim C5. For a video path that \<open>ffmpeg.probe\<close> can read: without the key
  \<open>format\<close>, without the tag block under it, or without the tag \<open>creation_time\<close> in
  the block, the outcome is \<open>NO_METADATA\<close>; otherwise the tag's string is tried against
  \<open>%Y-%m-%dT%H:%M:%S.%fZ\<close>, \<open>%Y-%m-%d %H:%M:%S.%fZ\<close>, \<open>%Y-%m-%d %H:%M:%S\<close> and
  \<open>%Y:%m:%d %H:%M:%S\<close>, in this order and against nothing else.
\<close>

theorem video_creation_time_formats:
  assumes vid: "endswith_any (lower p) video_files_for_ffmpeg"
      and probe: "ffmpeg_probe env p = Inr pr"
  shows "get_creation_date env self p =
     (case pr of
        None \<Rightarrow> Inr (NO_METADATA, None)
      | Some None \<Rightarrow> Inr (NO_METADATA, None)
      | Some (Some tags) \<Rightarrow>
          (case map_of tags ''creation_time'' of
             None \<Rightarrow> Inr (NO_METADATA, None)
           | Some s \<Rightarrow>
              (case strptime env s ''%Y-%m-%dT%H:%M:%S.%fZ'' of
                 Some t \<Rightarrow> Inr (VALID_CREATION_TIMESTAMP, Some t)
               | None \<Rightarrow>
                  (case strptime env s ''%Y-%m-%d %H:%M:%S.%fZ'' of
                     Some t \<Rightarrow> Inr (VALID_CREATION_TIMESTAMP, Some t)
                   | None \<Rightarrow>
                      (case strptime env s ''%Y-%m-%d %H:%M:%S'' of
                         Some t \<Rightarrow> Inr (VALID_CREATION_TIMESTAMP, Some t)
                       | None \<Rightarrow>
                          (case strptime env s ''%Y:%m:%d %H:%M:%S'' of
                             Some t \<Rightarrow> Inr (VALID_CREATION_TIMESTAMP, Some t)
                           | None \<Rightarrow> Inr (INVALID_TIMESTAMP_FORMAT, None)))))))"
  using video_not_image [OF vid] vid probe
  by (simp add: get_creation_date_def try_block_of_def try_parse_date_str
        split: option.splits)

theorem video_creation_time_formats_witness:
  "endswith_any (lower ''/p/2020/v.mp4'') video_files_for_ffmpeg
   \<and> ffmpeg_probe example_env ''/p/2020/v.mp4''
       = Inr (Some (Some [(''creation_time'', ''2020-03-01 12:00:00'')]))
   \<and> get_creation_date example_env pillow_tags ''/p/2020/v.mp4''
       = Inr (VALID_CREATION_TIMESTAMP, Some (stamp 2020 3 1 12 0 0))"
proof -
  have vid: "endswith_any (lower ''/p/2020/v.mp4'') video_files_for_ffmpeg"
    by (simp add: endswith_any_def endswith_def lower_char_def
          video_files_for_ffmpeg_def)
  have probe: "ffmpeg_probe example_env ''/p/2020/v.mp4''
       = Inr (Some (Some [(''creation_time'', ''2020-03-01 12:00:00'')]))"
    by (simp add: archive_defs)
  from video_creation_time_formats [OF vid probe, of pillow_tags]
  have "get_creation_date example_env pillow_tags ''/p/2020/v.mp4''
       = Inr (VALID_CREATION_TIMESTAMP, Some (stamp 2020 3 1 12 0 0))"
    by (simp add: archive_defs)
  with vid probe show ?thesis by blast
qed

text \<open>
  The video kind is decided on the lowered path, as the code decides it. A file whose
  extension is spelled \<open>.M\<close>, Kelvin sign, \<open>V\<close> is a video: its lowered name ends
  with \<open>.mkv\<close>, and the extractor reads its creation time.
\<close>

lemma kelvin_sign_is_video:
  "endswith_any (lower (''/p/2020/k.M'' @ [CHR 0xE2, CHR 0x84, CHR 0xAA] @ ''V''))
     video_files_for_ffmpeg
   \<and> get_creation_date example_env pillow_tags
         (''/p/2020/k.M'' @ [CHR 0xE2, CHR 0x84, CHR 0xAA] @ ''V'')
       = Inr (VALID_CREATION_TIMESTAMP, Some (stamp 2020 3 1 12 0 0))"
proof -
  let ?p = "''/p/2020/k.M'' @ [CHR 0xE2, CHR 0x84, CHR 0xAA] @ ''V''"
  have vid: "endswith_any (lower ?p) video_files_for_ffmpeg"
    by (simp add: endswith_any_def endswith_def lower_char_def
          video_files_for_ffmpeg_def)
  have probe: "ffmpeg_probe example_env ?p
       = Inr (Some (Some [(''creation_time'', ''2020-03-01 12:00:00'')]))"
    by (simp add: archive_defs)
  from video_creation_time_formats [OF vid probe, of pillow_tags]
  have "get_creation_date example_env pillow_tags ?p
       = Inr (VALID_CREATION_TIMESTAMP, Some (stamp 2020 3 1 12 0 0))"
    by (simp add: archive_defs)
  with vid show ?thesis by blast
qed

subsection \<open>C6: the two report files\<close>

text \<open>
  Claim C6. When no call of the file system fails, the Report Writer leaves, for every
  year and every triple of lists, the file \<open>{year}_non_matching_files.txt\<close> with the
  non-matching paths, one per line in the order collected, when there is such a path, and
  no file of that name otherwise; the same holds for \<open>{year}_failed_to_read_files.txt\<close>
  and the failed list, and no other file changes. The entries of the failed list are the
  ones the classifier rendered as \<open>"{path} (error code: {ResultName})"\<close>. So a directory
  without issues leaves no report behind.
\<close>

theorem report_writer_files:
  assumes "\<forall>n. open_fails env n = None"
      and "\<forall>t. write_fails env t = None"
      and "\<forall>n t. disk_stores env n t = None"
      and "\<forall>n. remove_fails env n = None"
  shows "write_reports env y b fs =
           (None, fs(str_int y @ ''_non_matching_files.txt''
                       := spec_report_file (non_matching_files b),
                     str_int y @ ''_failed_to_read_files.txt''
                       := spec_report_file (failed_to_read_files b)))
    \<and> (classify_files env self y no_files ps = Inr b \<longrightarrow>
          failed_to_read_files b = concat (map (spec_failed_entry env self y) ps))"
proof -
  have "write_report env n files fs' = (None, fs'(n := spec_report_file files))"
    for n files fs'
    using assms by (intro write_report_no_failure) simp_all
  then have "write_reports env y b fs =
           (None, fs(str_int y @ ''_non_matching_files.txt''
                       := spec_report_file (non_matching_files b),
                     str_int y @ ''_failed_to_read_files.txt''
                       := spec_report_file (failed_to_read_files b)))"
    by (simp add: write_reports_def)
  moreover have "classify_files env self y no_files ps = Inr b \<longrightarrow>
          failed_to_read_files b = concat (map (spec_failed_entry env self y) ps)"
    using classify_files_placement [of env self y no_files ps b] by (simp add: no_files_def)
  ultimately show ?thesis by blast
qed

theorem report_writer_files_witness:
  "fst (write_reports quiet_env 2020 clean_buckets stale_reports) = None
   \<and> snd (write_reports quiet_env 2020 clean_buckets stale_reports)
         ''2020_non_matching_files.txt'' = Some (''/p/2020/a.jpg'' @ [CHR 0x0A])
   \<and> snd (write_reports quiet_env 2020 clean_buckets stale_reports)
         ''2020_failed_to_read_files.txt'' = None"
proof -
  have o: "\<forall>n. open_fails quiet_env n = None"
    and w: "\<forall>t. write_fails quiet_env t = None"
    and d: "\<forall>n t. disk_stores quiet_env n t = None"
    and r: "\<forall>n. remove_fails quiet_env n = None"
    by (simp_all add: quiet_env_def example_env_def)
  from report_writer_files [OF o w d r, of 2020 clean_buckets stale_reports]
  show ?thesis
    by (simp add: str_int_2020 clean_buckets_def spec_report_file_def report_text_def)
qed

subsection \<open>C7: a write that fails half-way\<close>

text \<open>
  Claim C7, as the code has it. The reports are written after the walk has ended: an
  exception during the walk leaves the working directory as it was, and otherwise the
  writer runs on the finished lists. For a non-empty list: when the \<open>open\<close> fails, the
  writer fails and the file is unchanged; once the file is open, the writer either runs to
  its end, and then the file holds the text of the whole list, or it fails, and then the
  file holds a leading part of that text.
\<close>

theorem write_report_outcome:
  "(files \<noteq> [] \<longrightarrow>
      (\<forall>e. open_fails env n = Some e \<longrightarrow> write_report env n files fs = (Some e, fs))
    \<and> (open_fails env n = None \<longrightarrow>
         (\<exists>text rest. snd (write_report env n files fs) = fs(n \<mapsto> text)
             \<and> report_text files = text @ rest
             \<and> (fst (write_report env n files fs) = None \<longrightarrow> text = report_text files))))
   \<and> (\<forall>e. classify_files env self y no_files (walk_paths env fs search_path) = Inl e
        \<longrightarrow> process_directory env self search_path y fs = (Some e, fs))
   \<and> (\<forall>b. classify_files env self y no_files (walk_paths env fs search_path) = Inr b
        \<longrightarrow> process_directory env self search_path y fs = write_reports env y b fs)"
proof -
  have opened: "\<exists>text rest. snd (write_report env n files fs) = fs(n \<mapsto> text)
             \<and> report_text files = text @ rest
             \<and> (fst (write_report env n files fs) = None \<longrightarrow> text = report_text files)"
    if ne: "files \<noteq> []" and op: "open_fails env n = None"
  proof -
    obtain raised written where wl: "write_lines env files [] = (raised, written)"
      by (cases "write_lines env files []") auto
    from write_lines_buffer [of files env] wl
    obtain rest where buf: "report_text files = written @ rest" by auto
    show ?thesis
    proof (cases "disk_stores env n written")
      case None
      with ne op wl have res: "write_report env n files fs = (raised, fs(n \<mapsto> written))"
        by (simp add: write_report_def)
      have "raised = None \<longrightarrow> written = report_text files"
        using write_lines_complete [of env files "[]"] wl by simp
      with res buf show ?thesis by auto
    next
      case (Some k)
      with ne op wl
      have res: "write_report env n files fs = (Some OSError, fs(n \<mapsto> take k written))"
        by (simp add: write_report_def)
      from buf have "report_text files = take k written @ (drop k written @ rest)"
        by simp
      with res show ?thesis by auto
    qed
  qed
  have closed: "\<forall>e. open_fails env n = Some e \<longrightarrow> write_report env n files fs = (Some e, fs)"
    if "files \<noteq> []"
    using that by (simp add: write_report_def)
  have walk: "(\<forall>e. classify_files env self y no_files (walk_paths env fs search_path) = Inl e
        \<longrightarrow> process_directory env self search_path y fs = (Some e, fs))
   \<and> (\<forall>b. classify_files env self y no_files (walk_paths env fs search_path) = Inr b
        \<longrightarrow> process_directory env self search_path y fs = write_reports env y b fs)"
    by (simp add: process_directory_def)
  from opened closed walk show ?thesis by blast
qed

theorem write_report_outcome_witness:
  "non_matching_files example_buckets \<noteq> []
   \<and> open_fails example_env ''2020_non_matching_files.txt'' = None
   \<and> process_directory example_env pillow_tags ''/p/2020'' 2020 stale_reports
       = write_reports example_env 2020 example_buckets stale_reports
   \<and> fst (write_report example_env ''2020_non_matching_files.txt''
         (non_matching_files example_buckets) stale_reports) = None
   \<and> snd (write_report example_env ''2020_non_matching_files.txt''
         (non_matching_files example_buckets) stale_reports)
       = stale_reports(''2020_non_matching_files.txt'' \<mapsto>
           report_text (non_matching_files example_buckets))"
proof -
  let ?files = "non_matching_files example_buckets"
  let ?n = "''2020_non_matching_files.txt''"
  have ne: "?files \<noteq> []"
    by (simp add: example_buckets_def)
  have op: "open_fails example_env ?n = None"
    by (simp add: example_env_def)
  have fin: "fst (write_report example_env ?n ?files stale_reports) = None"
    by (simp add: write_report_def example_buckets_def example_env_def)
  note inst = write_report_outcome
         [of ?files example_env ?n stale_reports pillow_tags 2020 "''/p/2020''"]
  from inst archive_classified [of stale_reports]
  have run: "process_directory example_env pillow_tags ''/p/2020'' 2020 stale_reports
       = write_reports example_env 2020 example_buckets stale_reports"
    by blast
  from inst ne op
  have "\<exists>stored rest.
      snd (write_report example_env ?n ?files stale_reports) = stale_reports(?n \<mapsto> stored)
      \<and> report_text ?files = stored @ rest
      \<and> (fst (write_report example_env ?n ?files stale_reports) = None
           \<longrightarrow> stored = report_text ?files)"
    by simp
  then obtain stored where
    "snd (write_report example_env ?n ?files stale_reports) = stale_reports(?n \<mapsto> stored)"
    "fst (write_report example_env ?n ?files stale_reports) = None
       \<longrightarrow> stored = report_text ?files"
    by auto
  with fin have "snd (write_report example_env ?n ?files stale_reports)
       = stale_reports(?n \<mapsto> report_text ?files)"
    by simp
  with ne op run fin show ?thesis by blast
qed

text \<open>
  The claim as it is worded promises that a report file is written whole or stays as it
  was. The code opens the file with mode \<open>"w"\<close>, which empties it, and then writes entry
  by entry. With the list \<open>unwritable_list\<close>, whose second path cannot be encoded, the
  write of the second entry raises: the writer fails, the earlier report is gone, and the
  file holds the first entry alone.
\<close>

theorem write_report_partial_file_counterexample:
  "fst (write_report example_env ''2020_non_matching_files.txt'' unwritable_list
          stale_reports) = Some UnicodeEncodeError
   \<and> snd (write_report example_env ''2020_non_matching_files.txt'' unwritable_list
          stale_reports) ''2020_non_matching_files.txt''
       = Some (''/p/2020/a.jpg'' @ [CHR 0x0A])
   \<and> stale_reports ''2020_non_matching_files.txt''
       = Some (''/p/2020/old.jpg'' @ [CHR 0x0A])
   \<and> report_text unwritable_list
       \<noteq> ''/p/2020/a.jpg'' @ [CHR 0x0A]"
  by (simp add: write_report_def unwritable_list_def example_env_def stale_reports_def
        report_text_def)

text \<open>
  On a disk that takes twenty bytes for each file every entry can be encoded, so every
  \<open>write\<close> returns; the failure shows when the file is closed, and the file is cut
  inside the second entry.
\<close>

lemma write_report_cut_inside_entry:
  "fst (write_report small_disk_env ''2020_non_matching_files.txt''
          [''/p/2020/a.jpg'', ''/p/2020/b.jpg'', ''/p/2020/c.jpg''] stale_reports)
       = Some OSError
   \<and> snd (write_report small_disk_env ''2020_non_matching_files.txt''
          [''/p/2020/a.jpg'', ''/p/2020/b.jpg'', ''/p/2020/c.jpg''] stale_reports)
         ''2020_non_matching_files.txt''
       = Some (''/p/2020/a.jpg'' @ [CHR 0x0A] @ ''/p/202'')"
  by (simp add: write_report_def small_disk_env_def quiet_env_def example_env_def)

subsection \<open>C8: a file without an outcome\<close>

text \<open>
  Claim C8 says that the extractor produces exactly one outcome for every file path, with
  a timestamp exactly when the result is \<open>VALID_CREATION_TIMESTAMP\<close>. Every outcome the
  extractor returns has this shape (\<open>get_creation_date_timestamp_iff\<close>), and it returns
  one whenever the EXIF values are strings (\<open>get_creation_date_returns_on_strings\<close>).
  For the image \<open>/p/odd/g.jpg\<close>, whose DateTime tag holds a number, it produces no
  outcome at all: the \<open>TypeError\<close> of \<open>strptime\<close> leaves the function.
\<close>

theorem get_creation_date_no_outcome_on_int_value:
  "get_creation_date example_env pillow_tags ''/p/odd/g.jpg'' = Inl TypeError"
  by (simp add: extractor_defs archive_defs)

subsection \<open>C9: running the classifier twice\<close>

text \<open>
  Claim C9, as the code has it. The reports go to the working directory. When the walk
  of the second run lists what the walk of the first run listed, which is so whenever the
  working directory does not lie under the scanned directory, the second run of
  \<open>process_directory\<close>, started in the working directory the first run left, ends as the
  first run ended and leaves every file as the first run left it; in particular the two
  report files are the same byte for byte.
\<close>

theorem process_directory_twice:
  assumes "os_walk env (snd (process_directory env self search_path y fs)) search_path
             = os_walk env fs search_path"
  shows "process_directory env self search_path y
           (snd (process_directory env self search_path y fs))
         = process_directory env self search_path y fs"
proof -
  let ?fs1 = "snd (process_directory env self search_path y fs)"
  from assms have walk: "walk_paths env ?fs1 search_path = walk_paths env fs search_path"
    by (simp add: walk_paths_def)
  show ?thesis
  proof (cases "classify_files env self y no_files (walk_paths env fs search_path)")
    case (Inl e)
    then have "?fs1 = fs" by (simp add: process_directory_def)
    then show ?thesis by simp
  next
    case (Inr b)
    then have first: "process_directory env self search_path y fs = write_reports env y b fs"
      by (simp add: process_directory_def)
    from Inr walk
    have "process_directory env self search_path y ?fs1 = write_reports env y b ?fs1"
      by (simp add: process_directory_def)
    with first show ?thesis by (simp add: write_reports_again)
  qed
qed

theorem process_directory_twice_witness:
  "os_walk quiet_env
      (snd (process_directory quiet_env pillow_tags ''/p/2020'' 2020 stale_reports))
      ''/p/2020''
     = os_walk quiet_env stale_reports ''/p/2020''
   \<and> process_directory quiet_env pillow_tags ''/p/2020'' 2020
        (snd (process_directory quiet_env pillow_tags ''/p/2020'' 2020 stale_reports))
     = process_directory quiet_env pillow_tags ''/p/2020'' 2020 stale_reports"
proof -
  have same: "os_walk quiet_env
      (snd (process_directory quiet_env pillow_tags ''/p/2020'' 2020 stale_reports))
      ''/p/2020''
     = os_walk quiet_env stale_reports ''/p/2020''"
    by (simp add: quiet_env_def example_env_def)
  from process_directory_twice [OF same] same show ?thesis by blast
qed

text \<open>
  The claim as it is worded holds for every directory. Started inside the year directory
  \<open>/p/2020\<close>, which holds the one file \<open>n.bmp\<close> and no report, the first run writes
  the failed report with one entry. Nothing else touches the directory. The second run
  finds that report in its walk, cannot read it as a media file, and writes a failed
  report with two entries.
\<close>

theorem process_directory_twice_counterexample:
  "snd (process_directory inside_env pillow_tags ''/p/2020'' 2020 Map.empty)
       ''2020_failed_to_read_files.txt''
     = Some (''/p/2020/n.bmp (error code: FAILED_TO_READ)'' @ [CHR 0x0A])
   \<and> snd (process_directory inside_env pillow_tags ''/p/2020'' 2020
        (snd (process_directory inside_env pillow_tags ''/p/2020'' 2020 Map.empty)))
       ''2020_failed_to_read_files.txt''
     = Some (''/p/2020/n.bmp (error code: FAILED_TO_READ)'' @ [CHR 0x0A]
             @ ''/p/2020/2020_failed_to_read_files.txt (error code: FAILED_TO_READ)''
             @ [CHR 0x0A])"
proof -
  let ?entry = "''/p/2020/n.bmp (error code: FAILED_TO_READ)''"
  let ?entry2 = "''/p/2020/2020_failed_to_read_files.txt (error code: FAILED_TO_READ)''"
  let ?fs1 = "[''2020_failed_to_read_files.txt'' \<mapsto> ?entry @ [CHR 0x0A]]"
  have bmp: "get_creation_date inside_env pillow_tags ''/p/2020/n.bmp''
               = Inr (FAILED_TO_READ, None)"
    by (simp add: extractor_defs)
  have report: "get_creation_date inside_env pillow_tags ''/p/2020/2020_failed_to_read_files.txt''
               = Inr (FAILED_TO_READ, None)"
    by (simp add: extractor_defs)
  have walk1: "walk_paths inside_env Map.empty ''/p/2020'' = [''/p/2020/n.bmp'']"
    by (simp add: walk_paths_def inside_env_def os_path_join_def endswith_def)
  have walk2: "walk_paths inside_env ?fs1 ''/p/2020''
      = [''/p/2020/n.bmp'', ''/p/2020/2020_failed_to_read_files.txt'']"
    by (simp add: walk_paths_def inside_env_def os_path_join_def endswith_def)
  have class1: "classify_files inside_env pillow_tags 2020 no_files
        (walk_paths inside_env Map.empty ''/p/2020'')
      = Inr \<lparr>matching_files = [], non_matching_files = [],
             failed_to_read_files = [?entry]\<rparr>"
    unfolding walk1
    by (simp add: classify_file_def no_files_def bmp endswith_def lower_char_def
          ignore_files_def)
  have class2: "classify_files inside_env pillow_tags 2020 no_files
        (walk_paths inside_env ?fs1 ''/p/2020'')
      = Inr \<lparr>matching_files = [], non_matching_files = [],
             failed_to_read_files = [?entry, ?entry2]\<rparr>"
    unfolding walk2
    by (simp add: classify_file_def no_files_def bmp report endswith_def
          lower_char_def ignore_files_def)
  have io: "open_fails inside_env = (\<lambda>n. None)" "remove_fails inside_env = (\<lambda>n. None)"
    "disk_stores inside_env = (\<lambda>n t. None)"
    "write_fails inside_env = (\<lambda>t. if CHR 0xFF \<in> set t then Some UnicodeEncodeError else None)"
    by (simp_all add: inside_env_def example_env_def)
  have run1: "process_directory inside_env pillow_tags ''/p/2020'' 2020 Map.empty
      = (None, ?fs1)"
    unfolding process_directory_def class1
    by (simp add: write_reports_def write_report_def str_int_2020 io)
  have run2: "process_directory inside_env pillow_tags ''/p/2020'' 2020 ?fs1
      = (None, [''2020_failed_to_read_files.txt'' \<mapsto>
                  ?entry @ [CHR 0x0A] @ ?entry2 @ [CHR 0x0A]])"
    unfolding process_directory_def class2
    by (simp add: write_reports_def write_report_def str_int_2020 io)
  show ?thesis unfolding run1 snd_conv run2 by simp
qed

subsection \<open>C10: an empty date field\<close>

text \<open>
  Claim C10. For an image path whose first present date field, in the priority order,
  holds the empty string, the extractor returns \<open>(NO_METADATA, None)\<close>: the test for
  the empty candidate comes before any format is tried, and the fields of lower priority
  are not looked at.
\<close>

theorem empty_exif_value_no_metadata:
  assumes img: "endswith_any (lower p) image_files_with_EXIF_metadata"
      and rd: "Image_open_getexif env p = Inr (Some d)"
      and i: "i < 3"
      and empty: "map_of d ([exif_DateTimeOriginal_tag self, exit_DateTimeDigitized_tag self,
                    exif_DateTime_tag self] ! i) = Some (PyStr [])"
      and first: "\<forall>j<i. map_of d ([exif_DateTimeOriginal_tag self,
                    exit_DateTimeDigitized_tag self, exif_DateTime_tag self] ! j) = None"
  shows "get_creation_date env self p = Inr (NO_METADATA, None)"
proof -
  have "scan_exif_keys [exif_DateTimeOriginal_tag self, exit_DateTimeDigitized_tag self,
           exif_DateTime_tag self] d = (PyStr [], [''%Y:%m:%d %H:%M:%S''])"
    using i empty first by (intro scan_first_present) simp_all
  with img rd show ?thesis
    by (simp add: get_creation_date_def try_block_of_def)
qed

theorem empty_exif_value_no_metadata_witness:
  "endswith_any (lower ''/p/2020/raw/d.jpg'') image_files_with_EXIF_metadata
   \<and> Image_open_getexif example_env ''/p/2020/raw/d.jpg''
       = Inr (Some [(36868, PyStr []), (306, PyStr ''2020:01:01 00:00:00'')])
   \<and> get_creation_date example_env pillow_tags ''/p/2020/raw/d.jpg''
       = Inr (NO_METADATA, None)"
proof -
  let ?d = "[(36868, PyStr []), (306, PyStr ''2020:01:01 00:00:00'')]"
  have img: "endswith_any (lower ''/p/2020/raw/d.jpg'') image_files_with_EXIF_metadata"
    by (simp add: endswith_any_def endswith_def lower_char_def
          image_files_with_EXIF_metadata_def)
  have rd: "Image_open_getexif example_env ''/p/2020/raw/d.jpg'' = Inr (Some ?d)"
    by (simp add: archive_defs)
  have i: "(1::nat) < 3" by simp
  have empty: "map_of ?d ([exif_DateTimeOriginal_tag pillow_tags,
       exit_DateTimeDigitized_tag pillow_tags, exif_DateTime_tag pillow_tags] ! 1)
         = Some (PyStr [])"
    by (simp add: pillow_tags_def)
  have first: "\<forall>j<1. map_of ?d ([exif_DateTimeOriginal_tag pillow_tags,
       exit_DateTimeDigitized_tag pillow_tags, exif_DateTime_tag pillow_tags] ! j) = None"
    by (simp add: pillow_tags_def)
  from empty_exif_value_no_metadata [OF img rd i empty first] img rd
  show ?thesis by blast
qed

end
